theory Spec2Isabelle
  imports Complex_Main
begin

section \<open>GPX analyzer: the data\<close>

text \<open>
  The program is one Python class, \<^verbatim>\<open>GPXAnalyzer\<close>, in \<^verbatim>\<open>gpx_analyzer.py\<close>. Its numbers are
  Python floats; they are modelled as real numbers, with the one non-number a float column
  can hold, NaN, kept as a value of its own. Rounding is not modelled.

  A track point as \<^verbatim>\<open>extract_track_data\<close> copies it out of the parsed file: latitude and
  longitude are always there, elevation and time are \<^verbatim>\<open>None\<close> when the file has no
  \<^verbatim>\<open>ele\<close> or \<^verbatim>\<open>time\<close> element for the point.
\<close>

record point =
  latitude :: real
  longitude :: real
  elevation :: "real option"
  time :: "nat option"

type_synonym segment = "point list"
type_synonym track = "segment list"
type_synonym gpx_doc = "track list"

datatype float64 = NaN | Fin real

text \<open>
  A pandas column. \<^verbatim>\<open>pd.DataFrame(points)\<close> infers the dtype of each column from its
  values: a column of which at least one value is a number becomes a \<^verbatim>\<open>float64\<close> column,
  every \<^verbatim>\<open>None\<close> in it stored as NaN; a column of \<^verbatim>\<open>None\<close> alone is not converted, keeps
  dtype \<^verbatim>\<open>object\<close> and holds the \<^verbatim>\<open>None\<close> objects themselves (only its length is kept
  here).
\<close>

datatype series = Float64 "float64 list" | Object_None nat

text \<open>
  The data frame of \<^verbatim>\<open>self.track_data\<close>: the rows built by \<^verbatim>\<open>extract_track_data\<close> (the
  columns latitude, longitude, elevation, time) and the two columns that
  \<^verbatim>\<open>calculate_metrics\<close> adds, absent until then.
\<close>

record dataframe =
  points :: "point list"
  distance :: "real list option"
  cumulative_distance :: "real list option"

datatype error =
    FileNotFoundError
  | LoadError
  | ValueError string
  | KeyError
  | TypeError
  | AttributeError
  | OSError

text \<open>
  The object state. \<^verbatim>\<open>__init__\<close> sets the first four attributes; \<^verbatim>\<open>max_elevation\<close>,
  \<^verbatim>\<open>min_elevation\<close> and \<^verbatim>\<open>elevation_gain\<close> do not exist before \<^verbatim>\<open>calculate_metrics\<close>
  assigns them (\<open>None\<close> here).
\<close>

record analyzer =
  file_path :: string
  gpx :: "gpx_doc option"
  track_data :: "dataframe option"
  total_distance :: real
  max_elevation :: "float64 option"
  min_elevation :: "float64 option"
  elevation_gain :: "real option"

definition init :: "string \<Rightarrow> analyzer" where
  "init path = \<lparr>file_path = path, gpx = None, track_data = None, total_distance = 0,
     max_elevation = None, min_elevation = None, elevation_gain = None\<rparr>"

section \<open>The pandas operations the metrics use\<close>

text \<open>Column access \<^verbatim>\<open>track_data['elevation']\<close>, with the dtype pandas inferred for it.\<close>

definition to_float64 :: "real option \<Rightarrow> float64" where
  "to_float64 e = (case e of None \<Rightarrow> NaN | Some x \<Rightarrow> Fin x)"

definition column_of :: "real option list \<Rightarrow> series" where
  "column_of es =
     (if list_all (\<lambda>e. e = None) es then Object_None (length es)
      else Float64 (map to_float64 es))"

definition elevation_column :: "dataframe \<Rightarrow> series" where
  "elevation_column df = column_of (map elevation (points df))"

text \<open>The numbers of a column, NaN skipped (\<^verbatim>\<open>skipna=True\<close>, the default of the reductions).\<close>

fun present :: "float64 list \<Rightarrow> real list" where
  "present [] = []"
| "present (NaN # xs) = present xs"
| "present (Fin x # xs) = x # present xs"

fun fold_max :: "real \<Rightarrow> real list \<Rightarrow> real" where
  "fold_max m [] = m"
| "fold_max m (x # xs) = fold_max (max m x) xs"

fun fold_min :: "real \<Rightarrow> real list \<Rightarrow> real" where
  "fold_min m [] = m"
| "fold_min m (x # xs) = fold_min (min m x) xs"

text \<open>\<^verbatim>\<open>Series.max()\<close> and \<^verbatim>\<open>Series.min()\<close>: NaN when no value is present.\<close>

definition series_max :: "series \<Rightarrow> float64" where
  "series_max s =
     (case s of
        Object_None n \<Rightarrow> NaN
      | Float64 xs \<Rightarrow> (case present xs of [] \<Rightarrow> NaN | y # ys \<Rightarrow> Fin (fold_max y ys)))"

definition series_min :: "series \<Rightarrow> float64" where
  "series_min s =
     (case s of
        Object_None n \<Rightarrow> NaN
      | Float64 xs \<Rightarrow> (case present xs of [] \<Rightarrow> NaN | y # ys \<Rightarrow> Fin (fold_min y ys)))"

text \<open>Float subtraction: NaN on either side gives NaN.\<close>

fun fsub :: "float64 \<Rightarrow> float64 \<Rightarrow> float64" where
  "fsub (Fin a) (Fin b) = Fin (a - b)"
| "fsub _ _ = NaN"

fun deltas :: "float64 list \<Rightarrow> float64 list" where
  "deltas (x # y # ys) = fsub y x # deltas (y # ys)"
| "deltas _ = []"

text \<open>
  \<^verbatim>\<open>Series.diff()\<close>: the first entry is NaN, entry \<open>i\<close> is \<open>x[i] - x[i-1]\<close>. On an
  \<^verbatim>\<open>object\<close> column pandas subtracts the shifted arrays element by element with the
  Python operator, and \<^verbatim>\<open>None - None\<close> raises \<^verbatim>\<open>TypeError\<close>; with fewer than two rows there
  is nothing to subtract and the result is the NaN padding alone.
\<close>

definition series_diff :: "series \<Rightarrow> error + float64 list" where
  "series_diff s =
     (case s of
        Float64 xs \<Rightarrow> Inr (if xs = [] then [] else NaN # deltas xs)
      | Object_None n \<Rightarrow> (if 2 \<le> n then Inl TypeError else Inr (replicate n NaN)))"

text \<open>\<^verbatim>\<open>fillna(v)\<close>, \<^verbatim>\<open>clip(lower=lo)\<close> and \<^verbatim>\<open>sum()\<close> on a float column.\<close>

definition fillna :: "real \<Rightarrow> float64 list \<Rightarrow> float64 list" where
  "fillna v xs = map (\<lambda>x. case x of NaN \<Rightarrow> Fin v | Fin r \<Rightarrow> Fin r) xs"

definition clip_lower :: "real \<Rightarrow> float64 list \<Rightarrow> float64 list" where
  "clip_lower lo xs = map (\<lambda>x. case x of NaN \<Rightarrow> NaN | Fin r \<Rightarrow> Fin (max lo r)) xs"

definition series_sum :: "float64 list \<Rightarrow> real" where
  "series_sum xs = sum_list (present xs)"

text \<open>\<^verbatim>\<open>Series.cumsum()\<close> on the distance column, which holds no NaN.\<close>

fun cumsum_from :: "real \<Rightarrow> real list \<Rightarrow> real list" where
  "cumsum_from acc [] = []"
| "cumsum_from acc (x # xs) = (acc + x) # cumsum_from (acc + x) xs"

definition cumsum :: "real list \<Rightarrow> real list" where
  "cumsum xs = cumsum_from 0 xs"

section \<open>calculate\_metrics\<close>

text \<open>
  \<^verbatim>\<open>geodesic(a, b).meters\<close> comes from the geopy library and is a parameter of the model:
  a function of two (latitude, longitude) pairs that returns a distance or raises (geopy
  rejects a latitude outside [-90, 90]).
\<close>

type_synonym coord = "real \<times> real"
type_synonym geodesic = "coord \<Rightarrow> coord \<Rightarrow> error + real"

text \<open>
  \<^verbatim>\<open>[geodesic(coords[i], coords[i+1]).meters for i in range(len(coords)-1)]\<close>: the pairs are
  visited from the left and the first exception ends the comprehension.
\<close>

fun distances :: "geodesic \<Rightarrow> coord list \<Rightarrow> error + real list" where
  "distances g (a # b # cs) =
     (case g a b of
        Inl e \<Rightarrow> Inl e
      | Inr d \<Rightarrow> (case distances g (b # cs) of Inl e \<Rightarrow> Inl e | Inr ds \<Rightarrow> Inr (d # ds)))"
| "distances g _ = Inr []"

definition coords_of :: "dataframe \<Rightarrow> coord list" where
  "coords_of df = zip (map latitude (points df)) (map longitude (points df))"

text \<open>
  The method body, line by line. It returns nothing: every result is written into
  \<^verbatim>\<open>self\<close>. An exception leaves the method at once, and nothing in the program catches
  it, so the model returns the exception alone. A frame without rows has no columns, and
  \<^verbatim>\<open>track_data['latitude']\<close> raises \<^verbatim>\<open>KeyError\<close>.
\<close>

definition calculate_metrics :: "geodesic \<Rightarrow> analyzer \<Rightarrow> error + analyzer" where
  "calculate_metrics g self =
     (case track_data self of
        None \<Rightarrow> Inl TypeError
      | Some df \<Rightarrow>
          if points df = [] then Inl KeyError
          else
            (case distances g (coords_of df) of
               Inl e \<Rightarrow> Inl e
             | Inr ds \<Rightarrow>
                 let df' = df\<lparr>distance := Some (0 # ds),
                              cumulative_distance := Some (cumsum (0 # ds))\<rparr>;
                     ele = elevation_column df'
                 in (case series_diff ele of
                       Inl e \<Rightarrow> Inl e
                     | Inr d \<Rightarrow>
                         Inr (self\<lparr>track_data := Some df',
                                   total_distance := sum_list ds,
                                   max_elevation := Some (series_max ele),
                                   min_elevation := Some (series_min ele),
                                   elevation_gain :=
                                     Some (max 0 (series_sum (clip_lower 0 (fillna 0 d))))\<rparr>))))"

text \<open>
  The same body once more, this time keeping what an exception drops: the object as the
  call leaves it, together with the exception when one ended the call. The assignments
  happen in the order of the source lines: \<^verbatim>\<open>total_distance\<close> (line 58), the two columns
  (lines 61 and 62), the extrema (lines 65 and 66), and \<^verbatim>\<open>elevation_gain\<close> last (line 67).
  An exception of the geodesic function comes before all of them; the \<^verbatim>\<open>TypeError\<close> of
  the differencing comes after all but the last.
\<close>

definition calculate_metrics_effect :: "geodesic \<Rightarrow> analyzer \<Rightarrow> analyzer \<times> error option" where
  "calculate_metrics_effect g self =
     (case track_data self of
        None \<Rightarrow> (self, Some TypeError)
      | Some df \<Rightarrow>
          if points df = [] then (self, Some KeyError)
          else
            (case distances g (coords_of df) of
               Inl e \<Rightarrow> (self, Some e)
             | Inr ds \<Rightarrow>
                 let df' = df\<lparr>distance := Some (0 # ds),
                              cumulative_distance := Some (cumsum (0 # ds))\<rparr>;
                     ele = elevation_column df';
                     self' = self\<lparr>track_data := Some df',
                                   total_distance := sum_list ds,
                                   max_elevation := Some (series_max ele),
                                   min_elevation := Some (series_min ele)\<rparr>
                 in (case series_diff ele of
                       Inl e \<Rightarrow> (self', Some e)
                     | Inr d \<Rightarrow>
                         (self'\<lparr>elevation_gain :=
                            Some (max 0 (series_sum (clip_lower 0 (fillna 0 d))))\<rparr>,
                          None))))"

section \<open>Loading, extracting and the whole run\<close>

text \<open>
  What the process does to the outside: lines printed on the console, the map document
  written, the browser and the chart window opened, and the traceback the interpreter
  writes to the error stream when an exception reaches the top level. The source prints
  Russian sentences; each is a constructor here, named after what it says.
\<close>

datatype message =
    File_not_found string
  | Load_failed error
  | No_such_file
  | Total_distance real
  | Max_elevation float64
  | Min_elevation float64
  | Elevation_gain real
  | Map_saved string

datatype effect =
    Print message
  | Save_map string "coord list"
  | Open_browser string
  | Show_plot "real list" series
  | Traceback error

text \<open>
  A method returns, raises an exception, or ends the process through \<^verbatim>\<open>exit(n)\<close>
  (\<^verbatim>\<open>SystemExit\<close>, which no handler of the program catches).
\<close>

datatype 'a outcome = Returns 'a | Raises error | Exits nat

definition no_tracks :: error where
  "no_tracks = ValueError ''GPX file contains no tracks.''"

definition no_points :: error where
  "no_points = ValueError ''GPX file contains no points.''"

text \<open>
  \<^verbatim>\<open>load_gpx_file\<close>. Opening and parsing the file is the work of the operating system and
  of gpxpy: the parameter \<open>parse\<close> gives, for a path, the parsed document or the
  exception raised. The \<^verbatim>\<open>ValueError\<close> for a document without tracks is raised inside the
  \<^verbatim>\<open>try\<close> block, so the second handler catches it.
\<close>

definition load_gpx_file ::
  "(string \<Rightarrow> error + gpx_doc) \<Rightarrow> analyzer \<Rightarrow> effect list \<times> analyzer outcome" where
  "load_gpx_file parse self =
     (case (case parse (file_path self) of
              Inl e \<Rightarrow> Inl e
            | Inr doc \<Rightarrow> if doc = [] then Inl no_tracks else Inr doc) of
        Inr doc \<Rightarrow> ([], Returns (self\<lparr>gpx := Some doc\<rparr>))
      | Inl FileNotFoundError \<Rightarrow> ([Print (File_not_found (file_path self))], Exits 1)
      | Inl e \<Rightarrow> ([Print (Load_failed e)], Exits 1))"

text \<open>
  \<^verbatim>\<open>extract_track_data\<close>: the points of all segments of all tracks, in file order. The
  \<^verbatim>\<open>ValueError\<close> for an empty frame is raised outside any \<^verbatim>\<open>try\<close> block.
\<close>

definition extract_track_data :: "analyzer \<Rightarrow> error + analyzer" where
  "extract_track_data self =
     (case gpx self of
        None \<Rightarrow> Inl AttributeError
      | Some doc \<Rightarrow>
          let pts = concat (concat doc)
          in if pts = [] then Inl no_points
             else Inr (self\<lparr>track_data :=
                    Some \<lparr>points = pts, distance = None, cumulative_distance = None\<rparr>\<rparr>))"

text \<open>
  The columns read back by the presenter and by the theorems below; a column that does
  not exist reads as the empty list here.
\<close>

definition track_points :: "analyzer \<Rightarrow> point list" where
  "track_points a = (case track_data a of None \<Rightarrow> [] | Some df \<Rightarrow> points df)"

definition distance_column :: "analyzer \<Rightarrow> real list" where
  "distance_column a =
     (case track_data a of
        None \<Rightarrow> []
      | Some df \<Rightarrow> (case distance df of None \<Rightarrow> [] | Some xs \<Rightarrow> xs))"

definition cumulative_column :: "analyzer \<Rightarrow> real list" where
  "cumulative_column a =
     (case track_data a of
        None \<Rightarrow> []
      | Some df \<Rightarrow> (case cumulative_distance df of None \<Rightarrow> [] | Some xs \<Rightarrow> xs))"

text \<open>
  The per-step distances are the local list \<^verbatim>\<open>distances\<close> of \<^verbatim>\<open>calculate_metrics\<close>; the
  object keeps them as the distance column without its leading 0.
\<close>

definition step_distances :: "analyzer \<Rightarrow> real list" where
  "step_distances a = tl (distance_column a)"

text \<open>
  The console summary. It runs only after \<^verbatim>\<open>calculate_metrics\<close> has returned, when the
  three attributes exist.
\<close>

definition print_summary :: "analyzer \<Rightarrow> effect list" where
  "print_summary s =
     [Print (Total_distance (total_distance s))]
     @ (case max_elevation s of None \<Rightarrow> [] | Some m \<Rightarrow> [Print (Max_elevation m)])
     @ (case min_elevation s of None \<Rightarrow> [] | Some m \<Rightarrow> [Print (Min_elevation m)])
     @ (case elevation_gain s of None \<Rightarrow> [] | Some v \<Rightarrow> [Print (Elevation_gain v)])"

text \<open>
  \<^verbatim>\<open>visualize_track_on_map\<close> and \<^verbatim>\<open>plot_elevation_profile\<close> call into folium, matplotlib
  and the browser. Writing the map document and showing the chart can fail (the working
  directory is not writable, the name is taken by a directory, there is no display); what
  they do is a parameter of the model: for \<^verbatim>\<open>m.save(map_file)\<close> and for \<^verbatim>\<open>plt.show()\<close> either
  \<open>None\<close>, the call went through, or the exception raised. Nothing catches it.
\<close>

record presenter =
  map_save :: "string \<Rightarrow> error option"
  plot_show :: "error option"

definition visualize_track_on_map :: "presenter \<Rightarrow> analyzer \<Rightarrow> effect list \<times> error option" where
  "visualize_track_on_map pr s =
     (case map_save pr ''track_map.html'' of
        Some e \<Rightarrow> ([], Some e)
      | None \<Rightarrow>
          ([Save_map ''track_map.html''
              (zip (map latitude (track_points s)) (map longitude (track_points s))),
            Print (Map_saved ''track_map.html''),
            Open_browser ''track_map.html''],
           None))"

definition plot_elevation_profile :: "presenter \<Rightarrow> analyzer \<Rightarrow> effect list \<times> error option" where
  "plot_elevation_profile pr s =
     (case plot_show pr of
        Some e \<Rightarrow> ([], Some e)
      | None \<Rightarrow>
          ([Show_plot (cumulative_column s) (column_of (map elevation (track_points s)))],
           None))"

text \<open>
  \<^verbatim>\<open>run_analysis\<close>: load, extract, compute, print the summary, draw the map, draw the
  chart, each step only when the one before it returned.
\<close>

definition run_analysis ::
  "(string \<Rightarrow> error + gpx_doc) \<Rightarrow> geodesic \<Rightarrow> presenter \<Rightarrow> analyzer
     \<Rightarrow> effect list \<times> analyzer outcome" where
  "run_analysis parse g pr self =
     (case load_gpx_file parse self of
        (out, Returns s1) \<Rightarrow>
          (case extract_track_data s1 of
             Inl e \<Rightarrow> (out, Raises e)
           | Inr s2 \<Rightarrow>
               (case calculate_metrics g s2 of
                  Inl e \<Rightarrow> (out, Raises e)
                | Inr s3 \<Rightarrow>
                    (case visualize_track_on_map pr s3 of
                       (shown, Some e) \<Rightarrow> (out @ print_summary s3 @ shown, Raises e)
                     | (shown, None) \<Rightarrow>
                         (case plot_elevation_profile pr s3 of
                            (drawn, Some e) \<Rightarrow>
                              (out @ print_summary s3 @ shown @ drawn, Raises e)
                          | (drawn, None) \<Rightarrow>
                              (out @ print_summary s3 @ shown @ drawn, Returns s3)))))
      | (out, Raises e) \<Rightarrow> (out, Raises e)
      | (out, Exits n) \<Rightarrow> (out, Exits n))"

text \<open>
  The script body: the path typed by the user (already stripped), the \<^verbatim>\<open>os.path.isfile\<close>
  test, then the run. The result is what the process did and its exit status; an
  exception nobody caught gives the interpreter's traceback and status 1.
\<close>

definition main ::
  "(string \<Rightarrow> bool) \<Rightarrow> (string \<Rightarrow> error + gpx_doc) \<Rightarrow> geodesic \<Rightarrow> presenter \<Rightarrow> string
     \<Rightarrow> effect list \<times> nat" where
  "main isfile parse g pr path =
     (if \<not> isfile path then ([Print No_such_file], 1)
      else
        (case run_analysis parse g pr (init path) of
           (out, Returns s) \<Rightarrow> (out, 0)
         | (out, Raises e) \<Rightarrow> (out @ [Traceback e], 1)
         | (out, Exits n) \<Rightarrow> (out, n)))"

section \<open>The specification's elevation gain\<close>

text \<open>
  The gain as the specification words it: a pair of consecutive points counts with
  \<open>max(0, delta)\<close> when both elevations are present and with 0 otherwise, and the gain
  of a track is the sum over its consecutive pairs.
\<close>

definition pair_gain :: "real option \<Rightarrow> real option \<Rightarrow> real" where
  "pair_gain a b = (case (a, b) of (Some x, Some y) \<Rightarrow> max 0 (y - x) | _ \<Rightarrow> 0)"

definition spec_gain :: "real option list \<Rightarrow> real" where
  "spec_gain es = (\<Sum>i<length es - 1. pair_gain (es ! i) (es ! Suc i))"

section \<open>Example inputs\<close>

text \<open>
  A stand-in for geopy in the examples: it rejects latitudes outside [-90, 90] as geopy
  does and measures the rest on a flat grid of degrees.
\<close>

definition grid_distance :: geodesic where
  "grid_distance a b =
     (if 90 < \<bar>fst a\<bar> \<or> 90 < \<bar>fst b\<bar>
      then Inl (ValueError ''Latitude must be in the [-90; 90] range.'')
      else Inr (\<bar>fst b - fst a\<bar> + \<bar>snd b - snd a\<bar>))"

definition pt :: "real \<Rightarrow> real \<Rightarrow> real option \<Rightarrow> point" where
  "pt la lo e = \<lparr>latitude = la, longitude = lo, elevation = e, time = None\<rparr>"

definition loaded :: "point list \<Rightarrow> analyzer" where
  "loaded ps = (init ''ride.gpx'')
     \<lparr>gpx := Some [[ps]],
      track_data := Some \<lparr>points = ps, distance = None, cumulative_distance = None\<rparr>\<rparr>"

text \<open>
  Example tracks: three points of which the second has no elevation, a climb and descent
  with every elevation present, the same ride loaded a second time under another name and
  with time stamps, one point alone, and two points of a file that has no elevation at
  all. The \<open>done\<close> values are the objects after \<^verbatim>\<open>calculate_metrics\<close>.
\<close>

definition gap_track :: analyzer where
  "gap_track = loaded [pt 0 0 (Some 100), pt 0 (1/100) None, pt 0 (2/100) (Some 120)]"

definition gap_track_done :: analyzer where
  "gap_track_done = gap_track
     \<lparr>track_data :=
        Some \<lparr>points = [pt 0 0 (Some 100), pt 0 (1/100) None, pt 0 (2/100) (Some 120)],
              distance = Some [0, 1/100, 1/100],
              cumulative_distance = Some [0, 1/100, 2/100]\<rparr>,
      total_distance := 2/100,
      max_elevation := Some (Fin 120),
      min_elevation := Some (Fin 100),
      elevation_gain := Some 0\<rparr>"

definition hill_track :: analyzer where
  "hill_track = loaded [pt 0 0 (Some 100), pt 0 (1/100) (Some 150), pt 0 (2/100) (Some 120)]"

definition hill_track_done :: analyzer where
  "hill_track_done = hill_track
     \<lparr>track_data :=
        Some \<lparr>points = [pt 0 0 (Some 100), pt 0 (1/100) (Some 150), pt 0 (2/100) (Some 120)],
              distance = Some [0, 1/100, 1/100],
              cumulative_distance = Some [0, 1/100, 2/100]\<rparr>,
      total_distance := 2/100,
      max_elevation := Some (Fin 150),
      min_elevation := Some (Fin 100),
      elevation_gain := Some 50\<rparr>"

definition hill_track_again :: analyzer where
  "hill_track_again = (init ''copy.gpx'')
     \<lparr>track_data :=
        Some \<lparr>points = [(pt 0 0 (Some 100))\<lparr>time := Some 1\<rparr>,
                        (pt 0 (1/100) (Some 150))\<lparr>time := Some 2\<rparr>,
                        (pt 0 (2/100) (Some 120))\<lparr>time := Some 3\<rparr>],
              distance = Some [7], cumulative_distance = None\<rparr>,
      total_distance := 7\<rparr>"

definition lone_point :: analyzer where
  "lone_point = loaded [pt 48 11 (Some 520)]"

definition bare_track :: analyzer where
  "bare_track = loaded [pt 0 0 None, pt 0 (1/100) None]"

text \<open>Everything \<^verbatim>\<open>calculate_metrics\<close> computes, read back from the object.\<close>

definition outputs ::
  "analyzer \<Rightarrow> real \<times> real list \<times> real list \<times> float64 option \<times> float64 option \<times> real option" where
  "outputs a =
     (total_distance a, distance_column a, cumulative_column a,
      max_elevation a, min_elevation a, elevation_gain a)"

text \<open>
  The two-point track without elevation as the call that raises leaves it: distances and
  extrema assigned, \<^verbatim>\<open>elevation_gain\<close> not.
\<close>

definition bare_track_raised :: analyzer where
  "bare_track_raised = bare_track
     \<lparr>track_data := Some \<lparr>points = [pt 0 0 None, pt 0 (1/100) None],
                           distance = Some [0, 1/100],
                           cumulative_distance = Some [0, 1/100]\<rparr>,
      total_distance := 1/100,
      max_elevation := Some NaN,
      min_elevation := Some NaN\<rparr>"

text \<open>A longer ride, five points with a gap in the elevations, and two presenters: one
  for which every call goes through, one whose map document cannot be written.\<close>

definition long_track :: analyzer where
  "long_track = loaded
     [pt 0 0 (Some 10), pt 0 (1/100) (Some 30), pt (1/100) (1/100) None,
      pt (1/100) (3/100) (Some 20), pt 0 (3/100) (Some 25)]"

definition long_track_done :: analyzer where
  "long_track_done = long_track
     \<lparr>track_data :=
        Some \<lparr>points = [pt 0 0 (Some 10), pt 0 (1/100) (Some 30), pt (1/100) (1/100) None,
                        pt (1/100) (3/100) (Some 20), pt 0 (3/100) (Some 25)],
              distance = Some [0, 1/100, 1/100, 2/100, 1/100],
              cumulative_distance = Some [0, 1/100, 2/100, 4/100, 5/100]\<rparr>,
      total_distance := 5/100,
      max_elevation := Some (Fin 30),
      min_elevation := Some (Fin 10),
      elevation_gain := Some 25\<rparr>"

definition working_presenter :: presenter where
  "working_presenter = \<lparr>map_save = (\<lambda>f. None), plot_show = None\<rparr>"

definition read_only_presenter :: presenter where
  "read_only_presenter = \<lparr>map_save = (\<lambda>f. Some OSError), plot_show = None\<rparr>"

section \<open>Facts about the building blocks\<close>

lemmas example_defs =
  loaded_def init_def pt_def coords_of_def grid_distance_def elevation_column_def
  column_of_def to_float64_def series_diff_def series_max_def series_min_def
  fillna_def clip_lower_def series_sum_def cumsum_def

subsection \<open>Step distances\<close>

lemma distances_length: "distances g cs = Inr ds \<Longrightarrow> length ds = length cs - 1"
  by (induction g cs arbitrary: ds rule: distances.induct) (auto split: sum.splits)


lemma distances_nth:
  "distances g cs = Inr ds \<Longrightarrow> i < length ds \<Longrightarrow> g (cs ! i) (cs ! Suc i) = Inr (ds ! i)"
proof (induction g cs arbitrary: ds i rule: distances.induct)
  case (1 g a b cs)
  then obtain d ds' where d: "g a b = Inr d" and ds': "distances g (b # cs) = Inr ds'"
    and ds: "ds = d # ds'"
    by (auto split: sum.splits)
  show ?case
  proof (cases i)
    case 0
    with d ds show ?thesis by simp
  next
    case (Suc j)
    with "1.prems" ds have "j < length ds'" by simp
    with "1.IH"[OF d ds'] have "g ((b # cs) ! j) ((b # cs) ! Suc j) = Inr (ds' ! j)" .
    with Suc ds show ?thesis by simp
  qed
qed simp_all

subsection \<open>Running sums\<close>

lemma length_cumsum_from: "length (cumsum_from acc xs) = length xs"
  by (induction xs arbitrary: acc) auto


lemma cumsum_from_nth:
  "i < length xs \<Longrightarrow> cumsum_from acc xs ! i = acc + sum_list (take (Suc i) xs)"
proof (induction xs arbitrary: acc i)
  case Nil
  then show ?case by simp
next
  case (Cons x xs)
  show ?case
  proof (cases i)
    case 0
    then show ?thesis by simp
  next
    case (Suc j)
    with Cons show ?thesis by (simp add: add.assoc)
  qed
qed

lemma cumsum_from_step:
  "Suc i < length xs \<Longrightarrow> cumsum_from acc xs ! Suc i = cumsum_from acc xs ! i + xs ! Suc i"
  by (simp add: cumsum_from_nth take_Suc_conv_app_nth[of "Suc i"])



subsection \<open>Extrema\<close>

lemma fold_max_ge: "m \<le> fold_max m xs \<and> (\<forall>x \<in> set xs. x \<le> fold_max m xs)"
  by (induction xs arbitrary: m)
     (auto simp: max_def intro: order_trans, (meson order_trans linear)+)

lemma fold_max_mem: "fold_max m xs \<in> set (m # xs)"
  by (induction xs arbitrary: m) (auto simp: max_def)

lemma fold_min_le: "fold_min m xs \<le> m \<and> (\<forall>x \<in> set xs. fold_min m xs \<le> x)"
  by (induction xs arbitrary: m)
     (auto simp: min_def intro: order_trans, (meson order_trans linear)+)

lemma fold_min_mem: "fold_min m xs \<in> set (m # xs)"
  by (induction xs arbitrary: m) (auto simp: min_def)

lemma set_present_map: "set (present (map to_float64 es)) = {x. Some x \<in> set es}"
  by (induction es) (auto simp: to_float64_def split: option.splits)

subsection \<open>The clipped differences\<close>

lemma pair_gain_nonneg: "0 \<le> pair_gain a b"
  by (auto simp: pair_gain_def split: option.splits)

lemma spec_gain_nonneg: "0 \<le> spec_gain es"
  unfolding spec_gain_def by (rule sum_nonneg) (simp add: pair_gain_nonneg)

lemma spec_gain_Cons2: "spec_gain (x # y # zs) = pair_gain x y + spec_gain (y # zs)"
  by (simp add: spec_gain_def sum.lessThan_Suc_shift del: sum.lessThan_Suc)

lemma clipped_fsub:
  "series_sum (clip_lower 0 (fillna 0 (fsub (to_float64 y) (to_float64 x) # r)))
     = pair_gain x y + series_sum (clip_lower 0 (fillna 0 r))"
  by (cases x; cases y)
     (simp_all add: series_sum_def clip_lower_def fillna_def to_float64_def pair_gain_def)

lemma clipped_deltas:
  "series_sum (clip_lower 0 (fillna 0 (deltas (map to_float64 es)))) = spec_gain es"
proof (induction es rule: induct_list012)
  case 1
  show ?case by (simp add: series_sum_def clip_lower_def fillna_def spec_gain_def)
next
  case (2 x)
  show ?case by (simp add: series_sum_def clip_lower_def fillna_def spec_gain_def)
next
  case (3 x y zs)
  then show ?case by (simp add: clipped_fsub spec_gain_Cons2)
qed

lemma clipped_NaN:
  "series_sum (clip_lower 0 (fillna 0 (NaN # r))) = series_sum (clip_lower 0 (fillna 0 r))"
  by (simp add: series_sum_def clip_lower_def fillna_def)

lemma clipped_replicate: "series_sum (clip_lower 0 (fillna 0 (replicate n NaN))) = 0"
  by (induction n) (simp_all add: series_sum_def clip_lower_def fillna_def)

lemma gain_of_diff:
  "series_diff (column_of es) = Inr d \<Longrightarrow> series_sum (clip_lower 0 (fillna 0 d)) = spec_gain es"
proof (cases "list_all (\<lambda>e. e = None) es")
  case True
  assume "series_diff (column_of es) = Inr d"
  with True have d: "d = replicate (length es) NaN" and n: "length es < 2"
    by (auto simp: series_diff_def column_of_def split: if_splits)
  from n have "spec_gain es = 0" by (simp add: spec_gain_def)
  with d show ?thesis by (simp add: clipped_replicate)
next
  case False
  assume "series_diff (column_of es) = Inr d"
  with False have d: "d = (if es = [] then [] else NaN # deltas (map to_float64 es))"
    by (auto simp: series_diff_def column_of_def)
  show ?thesis
  proof (cases "es = []")
    case True
    with d show ?thesis by (simp add: series_sum_def clip_lower_def fillna_def spec_gain_def)
  next
    case False
    with d show ?thesis by (simp add: clipped_NaN clipped_deltas)
  qed
qed

subsection \<open>What a successful call leaves behind\<close>

lemma calculate_metrics_Inr:
  assumes "calculate_metrics g a = Inr a'"
  obtains df ds d where
    "track_data a = Some df" "points df \<noteq> []"
    "distances g (coords_of df) = Inr ds"
    "series_diff (elevation_column df) = Inr d"
    "a' = a\<lparr>track_data := Some (df\<lparr>distance := Some (0 # ds),
                                        cumulative_distance := Some (cumsum (0 # ds))\<rparr>),
             total_distance := sum_list ds,
             max_elevation := Some (series_max (elevation_column df)),
             min_elevation := Some (series_min (elevation_column df)),
             elevation_gain := Some (max 0 (series_sum (clip_lower 0 (fillna 0 d))))\<rparr>"
  using assms
  by (auto simp: calculate_metrics_def Let_def elevation_column_def
           split: option.splits if_splits sum.splits)

lemma calculate_metrics_columns:
  assumes "calculate_metrics g a = Inr a'"
  obtains df ds where
    "track_data a = Some df" "points df \<noteq> []"
    "distances g (coords_of df) = Inr ds"
    "distance_column a' = 0 # ds"
    "cumulative_column a' = 0 # cumsum_from 0 ds"
    "total_distance a' = sum_list ds"
proof -
  from assms obtain df ds d where
    f: "track_data a = Some df" "points df \<noteq> []" "distances g (coords_of df) = Inr ds"
    and a': "a' = a\<lparr>track_data := Some (df\<lparr>distance := Some (0 # ds),
                                        cumulative_distance := Some (cumsum (0 # ds))\<rparr>),
             total_distance := sum_list ds,
             max_elevation := Some (series_max (elevation_column df)),
             min_elevation := Some (series_min (elevation_column df)),
             elevation_gain := Some (max 0 (series_sum (clip_lower 0 (fillna 0 d))))\<rparr>"
    by (rule calculate_metrics_Inr)
  from a' have c1: "distance_column a' = 0 # ds"
    by (simp add: distance_column_def)
  from a' have c2: "cumulative_column a' = 0 # cumsum_from 0 ds"
    by (simp add: cumulative_column_def cumsum_def)
  from a' have c3: "total_distance a' = sum_list ds" by simp
  from f c1 c2 c3 show ?thesis by (rule that)
qed

lemma gap_track_run: "calculate_metrics grid_distance gap_track = Inr gap_track_done"
  by (simp add: calculate_metrics_def gap_track_def gap_track_done_def example_defs)

lemma hill_track_run: "calculate_metrics grid_distance hill_track = Inr hill_track_done"
  by (simp add: calculate_metrics_def hill_track_def hill_track_done_def example_defs)


subsection \<open>When the call returns, and what it leaves when it raises\<close>

lemma calculate_metrics_effect_agrees:
  "calculate_metrics g a =
     (case calculate_metrics_effect g a of (s, None) \<Rightarrow> Inr s | (s, Some e) \<Rightarrow> Inl e)"
  by (simp add: calculate_metrics_def calculate_metrics_effect_def Let_def
      split: option.splits sum.splits)

lemma calculate_metrics_effect_returned:
  "calculate_metrics g a = Inr a' \<Longrightarrow> calculate_metrics_effect g a = (a', None)"
  by (auto simp: calculate_metrics_def calculate_metrics_effect_def Let_def
      split: option.splits sum.splits if_splits)

lemma zip_columns: "zip (map f xs) (map h xs) = map (\<lambda>x. (f x, h x)) xs"
  by (induction xs) auto

lemma distances_total:
  "(\<And>p q. p \<in> set cs \<Longrightarrow> q \<in> set cs \<Longrightarrow> \<exists>d. g p q = Inr d) \<Longrightarrow> \<exists>ds. distances g cs = Inr ds"
proof (induction g cs rule: distances.induct)
  case (1 g a b cs)
  from "1.prems"[of a b] obtain d where d: "g a b = Inr d" by auto
  have "\<exists>ds. distances g (b # cs) = Inr ds"
  proof (rule "1.IH"[OF d])
    fix p q
    assume "p \<in> set (b # cs)" "q \<in> set (b # cs)"
    then show "\<exists>d. g p q = Inr d" using "1.prems"[of p q] by auto
  qed
  with d show ?case by auto
qed simp_all

lemma accepted_distances:
  assumes "track_data a = Some df"
    and "\<And>p q. p \<in> set (track_points a) \<Longrightarrow> q \<in> set (track_points a) \<Longrightarrow>
           \<exists>d. g (latitude p, longitude p) (latitude q, longitude q) = Inr d"
  shows "\<exists>ds. distances g (coords_of df) = Inr ds"
proof (rule distances_total)
  fix p q
  assume "p \<in> set (coords_of df)" "q \<in> set (coords_of df)"
  then obtain x y where "x \<in> set (points df)" "y \<in> set (points df)"
    "p = (latitude x, longitude x)" "q = (latitude y, longitude y)"
    by (auto simp: coords_of_def zip_columns)
  with assms show "\<exists>d. g p q = Inr d" by (simp add: track_points_def)
qed

lemma series_diff_returns:
  "(\<exists>d. series_diff (column_of es) = Inr d) \<longleftrightarrow> length es < 2 \<or> (\<exists>e \<in> set es. e \<noteq> None)"
  by (auto simp: series_diff_def column_of_def list_all_iff)

text \<open>
  When the geodesic function accepts the coordinates of a non-empty track, the call
  returns exactly when the track has one point or some point has an elevation.
\<close>

lemma calculate_metrics_returns_iff:
  assumes "track_points a \<noteq> []"
    and "\<And>p q. p \<in> set (track_points a) \<Longrightarrow> q \<in> set (track_points a) \<Longrightarrow>
           \<exists>d. g (latitude p, longitude p) (latitude q, longitude q) = Inr d"
  shows "(\<exists>a'. calculate_metrics g a = Inr a')
     \<longleftrightarrow> length (track_points a) = 1 \<or> (\<exists>p \<in> set (track_points a). elevation p \<noteq> None)"
proof -
  from assms(1) obtain df where df: "track_data a = Some df" and ne: "points df \<noteq> []"
    by (auto simp: track_points_def split: option.splits)
  from df assms(2) have "\<exists>ds. distances g (coords_of df) = Inr ds"
    by (rule accepted_distances)
  then obtain ds where ds: "distances g (coords_of df) = Inr ds" by blast
  from ne have len: "length (points df) < 2 \<longleftrightarrow> length (points df) = 1"
    by (cases "points df") auto
  from df ne ds have "(\<exists>a'. calculate_metrics g a = Inr a')
      \<longleftrightarrow> (\<exists>d. series_diff (column_of (map elevation (points df))) = Inr d)"
    by (auto simp: calculate_metrics_def Let_def elevation_column_def split: sum.splits)
  also have "\<dots> \<longleftrightarrow> length (points df) = 1 \<or> (\<exists>p \<in> set (points df). elevation p \<noteq> None)"
    unfolding series_diff_returns using len by auto
  finally show ?thesis using df by (simp add: track_points_def)
qed

text \<open>
  Once the distances are computed, the object holds them and its columns, whether the
  elevation gain that follows is computed or raises.
\<close>

lemma calculate_metrics_effect_columns:
  assumes "track_data a = Some df" and "points df \<noteq> []"
    and "distances g (coords_of df) = Inr ds"
  shows "distance_column (fst (calculate_metrics_effect g a)) = 0 # ds"
    and "cumulative_column (fst (calculate_metrics_effect g a)) = 0 # cumsum_from 0 ds"
    and "total_distance (fst (calculate_metrics_effect g a)) = sum_list ds"
  using assms
  by (simp_all add: calculate_metrics_effect_def Let_def distance_column_def
      cumulative_column_def cumsum_def split: sum.splits)

lemma prefix_sums_of_columns:
  assumes cc: "cumulative_column s = 0 # cumsum_from 0 ds"
    and dc: "distance_column s = 0 # ds"
    and td: "total_distance s = sum_list ds"
    and n: "n = Suc (length ds)"
  shows "length (cumulative_column s) = n
       \<and> cumulative_column s ! 0 = 0
       \<and> (\<forall>i. 1 \<le> i \<and> i < n \<longrightarrow>
             cumulative_column s ! i = cumulative_column s ! (i - 1) + step_distances s ! (i - 1))
       \<and> length (step_distances s) = n - 1
       \<and> total_distance s = sum_list (step_distances s)"
proof -
  from dc have sd: "step_distances s = ds" by (simp add: step_distances_def)
  have step: "cumulative_column s ! i = cumulative_column s ! (i - 1) + ds ! (i - 1)"
    if "1 \<le> i" "i < n" for i
  proof (cases "i - 1")
    case 0
    with that n have "i = 1" "0 < length ds" by auto
    with cc show ?thesis by (simp add: cumsum_from_nth take_Suc_conv_app_nth[of 0])
  next
    case (Suc j)
    with that n have i: "i = Suc (Suc j)" "Suc j < length ds" by auto
    with cc show ?thesis by (simp add: cumsum_from_step)
  qed
  from cc n have "length (cumulative_column s) = n" by (simp add: length_cumsum_from)
  moreover from cc have "cumulative_column s ! 0 = 0" by simp
  moreover from step sd have "\<forall>i. 1 \<le> i \<and> i < n \<longrightarrow>
      cumulative_column s ! i = cumulative_column s ! (i - 1) + step_distances s ! (i - 1)"
    by simp
  moreover from sd n have "length (step_distances s) = n - 1" by simp
  moreover from td sd have "total_distance s = sum_list (step_distances s)" by simp
  ultimately show ?thesis by blast
qed

section \<open>Elevation gain\<close>

text \<open>
  When the call returns, \<^verbatim>\<open>elevation_gain\<close> is the specification's sum: over the
  consecutive pairs of points, \<open>max(0, elevation[i+1] - elevation[i])\<close> for the pairs whose
  two elevations are present and 0 for a pair with a missing elevation on either side.
\<close>

lemma elevation_gain_returned:
  assumes "calculate_metrics g a = Inr a'"
  shows "elevation_gain a' = Some (spec_gain (map elevation (track_points a)))"
proof -
  from assms obtain df d where
    df: "track_data a = Some df" and
    d: "series_diff (elevation_column df) = Inr d" and
    a': "elevation_gain a' = Some (max 0 (series_sum (clip_lower 0 (fillna 0 d))))"
    by (rule calculate_metrics_Inr) simp
  from d have "series_sum (clip_lower 0 (fillna 0 d)) = spec_gain (map elevation (points df))"
    unfolding elevation_column_def by (rule gain_of_diff)
  with a' df spec_gain_nonneg[of "map elevation (points df)"] show ?thesis
    by (simp add: track_points_def)
qed

text \<open>
  It does return, with that gain, on every track that has one point or some elevation
  and whose coordinates the geodesic function accepts.
\<close>

lemma elevation_gain_some_elevation:
  assumes "track_points a \<noteq> []"
    and "\<And>p q. p \<in> set (track_points a) \<Longrightarrow> q \<in> set (track_points a) \<Longrightarrow>
           \<exists>d. g (latitude p, longitude p) (latitude q, longitude q) = Inr d"
    and "length (track_points a) = 1 \<or> (\<exists>p \<in> set (track_points a). elevation p \<noteq> None)"
  shows "\<exists>a'. calculate_metrics g a = Inr a'
           \<and> elevation_gain a' = Some (spec_gain (map elevation (track_points a)))"
proof -
  from assms(3) calculate_metrics_returns_iff[where a = a and g = g, OF assms(1,2)]
  have "\<exists>a'. calculate_metrics g a = Inr a'" by blast
  then obtain a' where "calculate_metrics g a = Inr a'" by blast
  then show ?thesis by (auto dest: elevation_gain_returned)
qed

text \<open>
  A climb of 50 and a descent of 30 give 50. With the second of three points lacking its
  elevation both steps next to it add nothing: the gain is 0, neither 20 (the gap bridged)
  nor 120 (the gap read as 0 metres).
\<close>

lemma elevation_gain_examples:
  "elevation_gain hill_track_done = Some (spec_gain [Some 100, Some 150, Some 120])"
  "spec_gain [Some 100, Some 150, Some 120] = 50"
  "elevation_gain gap_track_done = Some (spec_gain [Some 100, None, Some 120])"
  "spec_gain [Some 100, None, Some 120] = 0"
  by (simp_all add: hill_track_done_def gap_track_done_def spec_gain_def pair_gain_def
      lessThan_Suc numeral_2_eq_2)

text \<open>
  Claim C1. The specification asks, for every track, that the elevation gain is the sum
  over the consecutive pairs of \<open>max(0, delta)\<close> where both elevations are present, a pair
  with a missing elevation adding 0. On the track of two points without elevations that
  sum is 0. The call computes the distances and the extrema, then the differencing of the
  elevation column raises \<^verbatim>\<open>TypeError\<close>, and \<^verbatim>\<open>elevation_gain\<close> is never assigned.
\<close>

theorem no_elevation_gain_unassigned:
  "calculate_metrics_effect grid_distance bare_track = (bare_track_raised, Some TypeError)
   \<and> elevation_gain bare_track_raised = None
   \<and> spec_gain (map elevation (track_points bare_track)) = 0"
  by (simp add: calculate_metrics_effect_def bare_track_def bare_track_raised_def
      track_points_def spec_gain_def pair_gain_def example_defs)

section \<open>Distances\<close>

text \<open>
  Claim C3. Take any track of \<open>n\<close> points, \<open>n\<close> at least 1, whose coordinates the geodesic
  function accepts. The call computes the distances, and the object it leaves has a
  cumulative-distance column of \<open>n\<close> entries that starts at 0 and in which each later
  entry is the one before it plus the step distance in between; there are \<open>n - 1\<close> step
  distances and \<^verbatim>\<open>total_distance\<close> is their sum. The call returns that object whenever the
  track has one point or some point has an elevation; otherwise the distances are
  assigned as said before the exception of the elevation gain ends the call.
\<close>

theorem cumulative_distances_prefix_sums:
  assumes "track_points a \<noteq> []"
    and "\<And>p q. p \<in> set (track_points a) \<Longrightarrow> q \<in> set (track_points a) \<Longrightarrow>
           \<exists>d. g (latitude p, longitude p) (latitude q, longitude q) = Inr d"
  shows "\<exists>a'. fst (calculate_metrics_effect g a) = a'
       \<and> (length (track_points a) = 1 \<or> (\<exists>p \<in> set (track_points a). elevation p \<noteq> None)
            \<longrightarrow> calculate_metrics g a = Inr a')
       \<and> length (cumulative_column a') = length (track_points a)
       \<and> cumulative_column a' ! 0 = 0
       \<and> (\<forall>i. 1 \<le> i \<and> i < length (track_points a) \<longrightarrow>
             cumulative_column a' ! i
               = cumulative_column a' ! (i - 1) + step_distances a' ! (i - 1))
       \<and> length (step_distances a') = length (track_points a) - 1
       \<and> total_distance a' = sum_list (step_distances a')"
proof -
  define s where "s = fst (calculate_metrics_effect g a)"
  from assms(1) obtain df where df: "track_data a = Some df" and ne: "points df \<noteq> []"
    by (auto simp: track_points_def split: option.splits)
  from df have tp: "track_points a = points df" by (simp add: track_points_def)
  from df assms(2) have "\<exists>ds. distances g (coords_of df) = Inr ds"
    by (rule accepted_distances)
  then obtain ds where ds: "distances g (coords_of df) = Inr ds" by blast
  from ds have "length ds = length (points df) - 1"
    by (simp add: distances_length coords_of_def)
  with ne tp have n: "length (track_points a) = Suc (length ds)"
    by (cases "points df") auto
  have cols: "cumulative_column s = 0 # cumsum_from 0 ds" "distance_column s = 0 # ds"
    "total_distance s = sum_list ds"
    unfolding s_def by (simp_all add: calculate_metrics_effect_columns[OF df ne ds])
  have returns: "calculate_metrics g a = Inr s"
    if "length (track_points a) = 1 \<or> (\<exists>p \<in> set (track_points a). elevation p \<noteq> None)"
  proof -
    from that calculate_metrics_returns_iff[where a = a and g = g, OF assms]
    have "\<exists>a'. calculate_metrics g a = Inr a'" by blast
    then obtain a' where a': "calculate_metrics g a = Inr a'" by blast
    then have "calculate_metrics_effect g a = (a', None)"
      by (rule calculate_metrics_effect_returned)
    with a' show ?thesis by (simp add: s_def)
  qed
  from prefix_sums_of_columns[OF cols n] returns show ?thesis
    unfolding s_def by blast
qed

text \<open>
  A ride of five points, the third without elevation: the call returns, and the columns
  are as the theorem says.
\<close>

theorem cumulative_distances_prefix_sums_witness:
  "calculate_metrics grid_distance long_track = Inr long_track_done
   \<and> length (cumulative_column long_track_done) = 5
   \<and> cumulative_column long_track_done ! 0 = 0
   \<and> cumulative_column long_track_done ! 4
       = cumulative_column long_track_done ! 3 + step_distances long_track_done ! 3
   \<and> length (step_distances long_track_done) = 4
   \<and> total_distance long_track_done = sum_list (step_distances long_track_done)"
proof -
  have run: "calculate_metrics grid_distance long_track = Inr long_track_done"
    by (simp add: calculate_metrics_def long_track_def long_track_done_def example_defs)
  have pts: "track_points long_track =
      [pt 0 0 (Some 10), pt 0 (1/100) (Some 30), pt (1/100) (1/100) None,
       pt (1/100) (3/100) (Some 20), pt 0 (3/100) (Some 25)]"
    by (simp add: track_points_def long_track_def loaded_def)
  have ne: "track_points long_track \<noteq> []" by (simp add: pts)
  have acc: "\<And>p q. p \<in> set (track_points long_track) \<Longrightarrow> q \<in> set (track_points long_track)
      \<Longrightarrow> \<exists>d. grid_distance (latitude p, longitude p) (latitude q, longitude q) = Inr d"
    by (auto simp: pts pt_def grid_distance_def)
  have n: "length (track_points long_track) = 5" by (simp add: pts)
  have eff: "fst (calculate_metrics_effect grid_distance long_track) = long_track_done"
    by (simp add: calculate_metrics_effect_returned[OF run])
  from cumulative_distances_prefix_sums[where a = long_track and g = grid_distance, OF ne acc]
    eff n have
    "length (cumulative_column long_track_done) = 5"
    "cumulative_column long_track_done ! 0 = 0"
    "1 \<le> (4::nat) \<and> 4 < (5::nat) \<longrightarrow>
       cumulative_column long_track_done ! 4
         = cumulative_column long_track_done ! (4 - 1) + step_distances long_track_done ! (4 - 1)"
    "length (step_distances long_track_done) = 5 - 1"
    "total_distance long_track_done = sum_list (step_distances long_track_done)"
    by auto
  with run show ?thesis by simp
qed



text \<open>
  Claim C7. On a track of exactly one point \<^verbatim>\<open>calculate_metrics\<close> completes, whatever the
  geodesic function is, with total distance 0, elevation gain 0, the cumulative-distance
  column \<open>[0]\<close>, and both elevation extrema equal to the point's elevation, or NaN when
  the point has none.
\<close>

theorem single_point_track:
  assumes "track_data a = Some df" and "points df = [p]"
  shows "calculate_metrics g a =
     Inr (a\<lparr>track_data := Some (df\<lparr>distance := Some [0], cumulative_distance := Some [0]\<rparr>),
            total_distance := 0,
            max_elevation := Some (to_float64 (elevation p)),
            min_elevation := Some (to_float64 (elevation p)),
            elevation_gain := Some 0\<rparr>)"
proof (cases "elevation p")
  case None
  with assms show ?thesis
    by (simp add: calculate_metrics_def coords_of_def elevation_column_def column_of_def
        series_diff_def series_max_def series_min_def to_float64_def
        fillna_def clip_lower_def series_sum_def cumsum_def)
next
  case (Some e)
  with assms show ?thesis
    by (simp add: calculate_metrics_def coords_of_def elevation_column_def column_of_def
        series_diff_def series_max_def series_min_def to_float64_def
        fillna_def clip_lower_def series_sum_def cumsum_def)
qed

theorem single_point_track_witness:
  "calculate_metrics grid_distance lone_point =
     Inr (lone_point\<lparr>track_data := Some \<lparr>points = [pt 48 11 (Some 520)],
                                            distance = Some [0],
                                            cumulative_distance = Some [0]\<rparr>,
                      total_distance := 0,
                      max_elevation := Some (Fin 520),
                      min_elevation := Some (Fin 520),
                      elevation_gain := Some 0\<rparr>)"
proof -
  have td: "track_data lone_point
      = Some \<lparr>points = [pt 48 11 (Some 520)], distance = None, cumulative_distance = None\<rparr>"
    by (simp add: lone_point_def loaded_def)
  have ps: "points \<lparr>points = [pt 48 11 (Some 520)], distance = None,
      cumulative_distance = None\<rparr> = [pt 48 11 (Some 520)]"
    by simp
  from single_point_track[OF td ps, of grid_distance] show ?thesis
    by (simp add: to_float64_def pt_def)
qed

text \<open>
  Claim C8. The step distances are the geodesic function applied to the (latitude,
  longitude) pairs of adjacent points and to nothing else: two tracks with the same
  latitudes and longitudes on which \<^verbatim>\<open>calculate_metrics\<close> completes get the same step
  distances, total distance and cumulative distances, whatever their elevations.
\<close>

theorem distances_ignore_elevation:
  assumes "calculate_metrics g a1 = Inr b1" and "calculate_metrics g a2 = Inr b2"
    and "map latitude (track_points a1) = map latitude (track_points a2)"
    and "map longitude (track_points a1) = map longitude (track_points a2)"
  shows "step_distances b1 = step_distances b2
       \<and> total_distance b1 = total_distance b2
       \<and> cumulative_column b1 = cumulative_column b2
       \<and> (\<forall>i < length (step_distances b1).
            g (latitude (track_points a1 ! i), longitude (track_points a1 ! i))
              (latitude (track_points a1 ! Suc i), longitude (track_points a1 ! Suc i))
            = Inr (step_distances b1 ! i))"
proof -
  from assms(1) obtain df1 ds1 where
    df1: "track_data a1 = Some df1" and
    ds1: "distances g (coords_of df1) = Inr ds1" and
    dc1: "distance_column b1 = 0 # ds1" and
    cc1: "cumulative_column b1 = 0 # cumsum_from 0 ds1" and
    td1: "total_distance b1 = sum_list ds1"
    by (rule calculate_metrics_columns)
  from assms(2) obtain df2 ds2 where
    df2: "track_data a2 = Some df2" and
    ds2: "distances g (coords_of df2) = Inr ds2" and
    dc2: "distance_column b2 = 0 # ds2" and
    cc2: "cumulative_column b2 = 0 # cumsum_from 0 ds2" and
    td2: "total_distance b2 = sum_list ds2"
    by (rule calculate_metrics_columns)
  from df1 df2 assms(3,4) have "coords_of df1 = coords_of df2"
    by (simp add: coords_of_def track_points_def)
  with ds1 ds2 have eq: "ds1 = ds2" by simp
  from dc1 have sd1: "step_distances b1 = ds1" by (simp add: step_distances_def)
  from dc2 have sd2: "step_distances b2 = ds2" by (simp add: step_distances_def)
  have nth: "g (latitude (track_points a1 ! i), longitude (track_points a1 ! i))
               (latitude (track_points a1 ! Suc i), longitude (track_points a1 ! Suc i))
             = Inr (ds1 ! i)" if "i < length ds1" for i
  proof -
    from ds1 have "length ds1 = length (points df1) - 1"
      by (simp add: distances_length coords_of_def)
    with that have i: "i < length (points df1)" "Suc i < length (points df1)" by auto
    from distances_nth[OF ds1 that] i df1 show ?thesis
      by (simp add: coords_of_def track_points_def)
  qed
  from eq sd1 sd2 td1 td2 cc1 cc2 nth show ?thesis by simp
qed

theorem distances_ignore_elevation_witness:
  "calculate_metrics grid_distance hill_track = Inr hill_track_done
   \<and> calculate_metrics grid_distance gap_track = Inr gap_track_done
   \<and> map elevation (track_points hill_track) \<noteq> map elevation (track_points gap_track)
   \<and> step_distances hill_track_done = step_distances gap_track_done
   \<and> total_distance hill_track_done = total_distance gap_track_done
   \<and> cumulative_column hill_track_done = cumulative_column gap_track_done"
proof -
  note run1 = hill_track_run
  note run2 = gap_track_run
  have la: "map latitude (track_points hill_track) = map latitude (track_points gap_track)"
    by (simp add: track_points_def hill_track_def gap_track_def loaded_def pt_def)
  have lo: "map longitude (track_points hill_track) = map longitude (track_points gap_track)"
    by (simp add: track_points_def hill_track_def gap_track_def loaded_def pt_def)
  have el: "map elevation (track_points hill_track) \<noteq> map elevation (track_points gap_track)"
    by (simp add: track_points_def hill_track_def gap_track_def loaded_def pt_def)
  from distances_ignore_elevation[OF run1 run2 la lo] run1 run2 el show ?thesis by simp
qed

section \<open>Determinism, repetition and the frame\<close>

lemma calculate_metrics_outputs:
  assumes "track_data a = Some df" and "points df \<noteq> []"
  shows "map_sum id outputs (calculate_metrics g a) =
     (case distances g (coords_of df) of
        Inl e \<Rightarrow> Inl e
      | Inr ds \<Rightarrow>
          (case series_diff (elevation_column df) of
             Inl e \<Rightarrow> Inl e
           | Inr d \<Rightarrow>
               Inr (sum_list ds, 0 # ds, cumsum (0 # ds),
                    Some (series_max (elevation_column df)),
                    Some (series_min (elevation_column df)),
                    Some (max 0 (series_sum (clip_lower 0 (fillna 0 d)))))))"
  using assms
  by (simp add: calculate_metrics_def Let_def elevation_column_def outputs_def
      distance_column_def cumulative_column_def split: sum.splits)

text \<open>
  Claim C9. \<^verbatim>\<open>calculate_metrics\<close> is a function of the point data: two analyzers whose
  non-empty tracks have the same latitudes, longitudes and elevations end the same way,
  either with the same exception or with the same total distance, distance column,
  cumulative distances, elevation extrema and elevation gain, whatever their file path,
  time stamps or earlier results are.
\<close>

theorem calculate_metrics_deterministic:
  assumes "track_points a1 \<noteq> []"
    and "map latitude (track_points a1) = map latitude (track_points a2)"
    and "map longitude (track_points a1) = map longitude (track_points a2)"
    and "map elevation (track_points a1) = map elevation (track_points a2)"
  shows "map_sum id outputs (calculate_metrics g a1)
       = map_sum id outputs (calculate_metrics g a2)"
proof -
  from assms(1) obtain df1 where df1: "track_data a1 = Some df1" and ne1: "points df1 \<noteq> []"
    by (auto simp: track_points_def split: option.splits)
  from assms(1,2) have "track_points a2 \<noteq> []" by auto
  then obtain df2 where df2: "track_data a2 = Some df2" and ne2: "points df2 \<noteq> []"
    by (auto simp: track_points_def split: option.splits)
  from df1 df2 assms(2,3) have co: "coords_of df1 = coords_of df2"
    by (simp add: coords_of_def track_points_def)
  from df1 df2 assms(4) have el: "elevation_column df1 = elevation_column df2"
    by (simp add: elevation_column_def track_points_def)
  show ?thesis
    unfolding calculate_metrics_outputs[OF df1 ne1] calculate_metrics_outputs[OF df2 ne2] co el
    by (rule refl)
qed

theorem calculate_metrics_deterministic_witness:
  "file_path hill_track \<noteq> file_path hill_track_again
   \<and> map time (track_points hill_track) \<noteq> map time (track_points hill_track_again)
   \<and> total_distance hill_track \<noteq> total_distance hill_track_again
   \<and> calculate_metrics grid_distance hill_track = Inr hill_track_done
   \<and> map_sum id outputs (calculate_metrics grid_distance hill_track_again)
       = Inr (outputs hill_track_done)"
proof -
  note run = hill_track_run
  have ne: "track_points hill_track \<noteq> []"
    by (simp add: track_points_def hill_track_def loaded_def)
  have la: "map latitude (track_points hill_track) = map latitude (track_points hill_track_again)"
    by (simp add: track_points_def hill_track_def hill_track_again_def loaded_def pt_def)
  have lo: "map longitude (track_points hill_track) = map longitude (track_points hill_track_again)"
    by (simp add: track_points_def hill_track_def hill_track_again_def loaded_def pt_def)
  have el: "map elevation (track_points hill_track) = map elevation (track_points hill_track_again)"
    by (simp add: track_points_def hill_track_def hill_track_again_def loaded_def pt_def)
  have other: "file_path hill_track \<noteq> file_path hill_track_again"
    "map time (track_points hill_track) \<noteq> map time (track_points hill_track_again)"
    "total_distance hill_track \<noteq> total_distance hill_track_again"
    by (simp_all add: track_points_def hill_track_def hill_track_again_def loaded_def
        init_def pt_def)
  from calculate_metrics_deterministic[OF ne la lo el, of grid_distance] run other
  show ?thesis by simp
qed

text \<open>
  Claim C10. Calling \<^verbatim>\<open>calculate_metrics\<close> again on the object a first call has left
  completes too and changes nothing: the total distance, both distance columns, the
  elevation extrema and the elevation gain are those of the first call.
\<close>

theorem calculate_metrics_idempotent:
  assumes "calculate_metrics g a = Inr a'"
  shows "calculate_metrics g a' = Inr a'"
proof -
  from assms obtain df ds d where
    ne: "points df \<noteq> []" and
    ds: "distances g (coords_of df) = Inr ds" and
    d: "series_diff (elevation_column df) = Inr d" and
    a': "a' = a\<lparr>track_data := Some (df\<lparr>distance := Some (0 # ds),
                                        cumulative_distance := Some (cumsum (0 # ds))\<rparr>),
             total_distance := sum_list ds,
             max_elevation := Some (series_max (elevation_column df)),
             min_elevation := Some (series_min (elevation_column df)),
             elevation_gain := Some (max 0 (series_sum (clip_lower 0 (fillna 0 d))))\<rparr>"
    by (rule calculate_metrics_Inr)
  from d have d': "series_diff (column_of (map elevation (points df))) = Inr d"
    by (simp add: elevation_column_def)
  from ne ds d' show ?thesis
    unfolding a' by (simp add: calculate_metrics_def Let_def coords_of_def elevation_column_def)
qed

theorem calculate_metrics_idempotent_witness:
  "calculate_metrics grid_distance hill_track = Inr hill_track_done
   \<and> calculate_metrics grid_distance hill_track_done = Inr hill_track_done"
proof -
  note run = hill_track_run
  from calculate_metrics_idempotent[OF run] run show ?thesis by simp
qed

text \<open>
  Claim C2, as the specification states it, asks for a computation without side effects
  that returns a fresh value. The method returns nothing and works by side effect alone:
  it writes its results into the object and adds two columns to the track's data frame.
\<close>

theorem calculate_metrics_mutates_counterexample:
  "calculate_metrics grid_distance hill_track = Inr hill_track_done
   \<and> track_data hill_track_done \<noteq> track_data hill_track
   \<and> total_distance hill_track_done \<noteq> total_distance hill_track"
  by (simp add: calculate_metrics_def hill_track_def hill_track_done_def example_defs)

text \<open>
  Claim C2, amended. \<^verbatim>\<open>calculate_metrics\<close> returns no value and works by side effect on
  the analyzer. Whether the call returns or raises, it changes nothing but
  \<^verbatim>\<open>total_distance\<close>, \<^verbatim>\<open>max_elevation\<close>, \<^verbatim>\<open>min_elevation\<close>, \<^verbatim>\<open>elevation_gain\<close> and the
  columns \<^verbatim>\<open>distance\<close> and \<^verbatim>\<open>cumulative_distance\<close> of \<^verbatim>\<open>track_data\<close>: the points of the
  track, with the latitude, longitude, elevation and time of each, the file path and the
  parsed document are as before. A call that returns has assigned all four attributes and
  both columns.
\<close>

theorem calculate_metrics_frame:
  "track_points (fst (calculate_metrics_effect g a)) = track_points a
   \<and> file_path (fst (calculate_metrics_effect g a)) = file_path a
   \<and> gpx (fst (calculate_metrics_effect g a)) = gpx a
   \<and> (\<exists>td t mx mn v. fst (calculate_metrics_effect g a)
          = a\<lparr>track_data := td, total_distance := t, max_elevation := mx,
               min_elevation := mn, elevation_gain := v\<rparr>)
   \<and> (\<forall>a'. calculate_metrics g a = Inr a' \<longrightarrow>
          fst (calculate_metrics_effect g a) = a'
          \<and> (\<exists>ds mx mn v.
                track_data a' = Some \<lparr>points = track_points a, distance = Some (0 # ds),
                                       cumulative_distance = Some (cumsum (0 # ds))\<rparr>
                \<and> total_distance a' = sum_list ds
                \<and> max_elevation a' = Some mx \<and> min_elevation a' = Some mn
                \<and> elevation_gain a' = Some v))"
proof -
  define s where "s = fst (calculate_metrics_effect g a)"
  have pts: "track_points s = track_points a"
    unfolding s_def
    by (simp add: calculate_metrics_effect_def Let_def track_points_def
        split: option.splits sum.splits)
  have same: "file_path s = file_path a" "gpx s = gpx a"
    unfolding s_def
    by (simp_all add: calculate_metrics_effect_def Let_def split: option.splits sum.splits)
  have "s = a\<lparr>track_data := track_data s, total_distance := total_distance s,
               max_elevation := max_elevation s, min_elevation := min_elevation s,
               elevation_gain := elevation_gain s\<rparr>"
    unfolding s_def
    by (simp add: calculate_metrics_effect_def Let_def split: option.splits sum.splits)
  then have only: "\<exists>td t mx mn v. s = a\<lparr>track_data := td, total_distance := t,
      max_elevation := mx, min_elevation := mn, elevation_gain := v\<rparr>"
    by blast
  have returned: "s = a' \<and> (\<exists>ds mx mn v.
        track_data a' = Some \<lparr>points = track_points a, distance = Some (0 # ds),
                               cumulative_distance = Some (cumsum (0 # ds))\<rparr>
        \<and> total_distance a' = sum_list ds
        \<and> max_elevation a' = Some mx \<and> min_elevation a' = Some mn
        \<and> elevation_gain a' = Some v)"
    if run: "calculate_metrics g a = Inr a'" for a'
  proof -
    from run have "s = a'" by (simp add: s_def calculate_metrics_effect_returned)
    moreover from run obtain df ds d where
      df: "track_data a = Some df" and
      a': "a' = a\<lparr>track_data := Some (df\<lparr>distance := Some (0 # ds),
                                        cumulative_distance := Some (cumsum (0 # ds))\<rparr>),
             total_distance := sum_list ds,
             max_elevation := Some (series_max (elevation_column df)),
             min_elevation := Some (series_min (elevation_column df)),
             elevation_gain := Some (max 0 (series_sum (clip_lower 0 (fillna 0 d))))\<rparr>"
      by (rule calculate_metrics_Inr)
    from df have "track_data a' = Some \<lparr>points = track_points a, distance = Some (0 # ds),
        cumulative_distance = Some (cumsum (0 # ds))\<rparr>"
      unfolding a' by (simp add: track_points_def)
    moreover have "total_distance a' = sum_list ds"
      "max_elevation a' = Some (series_max (elevation_column df))"
      "min_elevation a' = Some (series_min (elevation_column df))"
      "elevation_gain a' = Some (max 0 (series_sum (clip_lower 0 (fillna 0 d))))"
      unfolding a' by simp_all
    ultimately show ?thesis by blast
  qed
  from pts same only returned show ?thesis unfolding s_def by blast
qed

text \<open>
  The track with a gap, on which the call returns, and the track without elevations, on
  which it raises: the points, the path and the document stay as they were.
\<close>

theorem calculate_metrics_frame_witness:
  "calculate_metrics grid_distance gap_track = Inr gap_track_done
   \<and> track_points gap_track_done = track_points gap_track
   \<and> file_path gap_track_done = file_path gap_track
   \<and> gpx gap_track_done = gpx gap_track
   \<and> max_elevation gap_track_done = Some (Fin 120)
   \<and> calculate_metrics_effect grid_distance bare_track = (bare_track_raised, Some TypeError)
   \<and> track_points bare_track_raised = track_points bare_track"
proof -
  note run = gap_track_run
  have eff: "calculate_metrics_effect grid_distance bare_track
      = (bare_track_raised, Some TypeError)"
    by (simp add: calculate_metrics_effect_def bare_track_def bare_track_raised_def
        example_defs)
  have mx: "max_elevation gap_track_done = Some (Fin 120)"
    by (simp add: gap_track_done_def)
  from calculate_metrics_frame[of grid_distance gap_track] run have
    "fst (calculate_metrics_effect grid_distance gap_track) = gap_track_done"
    "track_points (fst (calculate_metrics_effect grid_distance gap_track))
       = track_points gap_track"
    "file_path (fst (calculate_metrics_effect grid_distance gap_track)) = file_path gap_track"
    "gpx (fst (calculate_metrics_effect grid_distance gap_track)) = gpx gap_track"
    by blast+
  moreover from calculate_metrics_frame[of grid_distance bare_track] eff have
    "track_points bare_track_raised = track_points bare_track"
    by simp
  ultimately show ?thesis using run eff mx by simp
qed

section \<open>Elevation extrema\<close>

text \<open>
  When the call completes, the extrema bound every elevation that is present and are
  themselves elevations of points of the track.
\<close>

lemma elevation_extrema_bounds:
  assumes "calculate_metrics g a = Inr a'"
    and "p \<in> set (track_points a)" and "elevation p = Some e"
  shows "\<exists>lo hi. min_elevation a' = Some (Fin lo) \<and> max_elevation a' = Some (Fin hi)
           \<and> lo \<le> e \<and> e \<le> hi
           \<and> Some lo \<in> elevation ` set (track_points a)
           \<and> Some hi \<in> elevation ` set (track_points a)"
proof -
  from assms(1) obtain df where
    df: "track_data a = Some df" and
    mx: "max_elevation a' = Some (series_max (elevation_column df))" and
    mn: "min_elevation a' = Some (series_min (elevation_column df))"
    by (rule calculate_metrics_Inr) simp
  define es where "es = map elevation (points df)"
  from df assms(2,3) have mem: "Some e \<in> set es"
    by (force simp: es_def track_points_def)
  then have "\<not> list_all (\<lambda>x. x = None) es" by (auto simp: list_all_iff)
  then have col: "elevation_column df = Float64 (map to_float64 es)"
    by (simp add: elevation_column_def column_of_def es_def)
  from mem have "e \<in> set (present (map to_float64 es))" by (simp add: set_present_map)
  then obtain y ys where pr: "present (map to_float64 es) = y # ys" and e: "e \<in> set (y # ys)"
    by (cases "present (map to_float64 es)") auto
  from fold_max_ge[of y ys] e have hi: "e \<le> fold_max y ys" by auto
  from fold_min_le[of y ys] e have lo: "fold_min y ys \<le> e" by auto
  from fold_max_mem[of y ys] pr have "fold_max y ys \<in> set (present (map to_float64 es))"
    by simp
  then have hi_mem: "Some (fold_max y ys) \<in> set es" by (simp add: set_present_map)
  from fold_min_mem[of y ys] pr have "fold_min y ys \<in> set (present (map to_float64 es))"
    by simp
  then have lo_mem: "Some (fold_min y ys) \<in> set es" by (simp add: set_present_map)
  from df have "set es = elevation ` set (track_points a)"
    by (simp add: es_def track_points_def)
  with hi lo hi_mem lo_mem mx mn col pr show ?thesis
    by (simp add: series_max_def series_min_def)
qed

text \<open>
  With no elevation at all the extrema are NaN. The elevation column then has dtype
  \<^verbatim>\<open>object\<close>, and with two points or more the differencing for the elevation gain raises:
  the call never completes.
\<close>

lemma no_elevation_never_completes:
  assumes "track_data a = Some df" and "2 \<le> length (points df)"
    and "\<forall>p \<in> set (points df). elevation p = None"
  shows "\<exists>e. calculate_metrics g a = Inl e"
proof -
  from assms(3) have "list_all (\<lambda>x. x = None) (map elevation (points df))"
    by (simp add: list_all_iff)
  with assms(2) have "series_diff (elevation_column df) = Inl TypeError"
    by (simp add: elevation_column_def column_of_def series_diff_def)
  moreover from assms(2) have "points df \<noteq> []" by auto
  ultimately show ?thesis
    using assms(1)
    by (simp add: calculate_metrics_def Let_def elevation_column_def split: sum.splits)
qed

text \<open>
  Claim C4. The specification asks that a track without any elevation leaves both extrema
  unset and does not crash the engine. On the two-point track without elevations the call
  ends with the \<^verbatim>\<open>TypeError\<close> of the differencing instead of returning.
\<close>

theorem no_elevation_track_raises:
  "calculate_metrics grid_distance bare_track = Inl TypeError"
  by (simp add: calculate_metrics_def bare_track_def example_defs)

section \<open>Failures of the run\<close>

text \<open>
  A path that is no file, a file that cannot be opened or parsed, and a document without
  tracks each print one line and end the process with status 1 through \<^verbatim>\<open>exit(1)\<close>.
\<close>

lemma handled_failures:
  "\<not> isfile path \<Longrightarrow> main isfile parse g pr path = ([Print No_such_file], 1)"
  "isfile path \<Longrightarrow> parse path = Inl FileNotFoundError \<Longrightarrow>
     main isfile parse g pr path = ([Print (File_not_found path)], 1)"
  "isfile path \<Longrightarrow> parse path = Inl e \<Longrightarrow> e \<noteq> FileNotFoundError \<Longrightarrow>
     main isfile parse g pr path = ([Print (Load_failed e)], 1)"
  "isfile path \<Longrightarrow> parse path = Inr [] \<Longrightarrow>
     main isfile parse g pr path = ([Print (Load_failed no_tracks)], 1)"
  by (cases e; simp add: main_def run_analysis_def load_gpx_file_def init_def no_tracks_def)+

text \<open>
  As long as the map document can be written and the chart shown, a run either completes
  with status 0 after the summary, the map and the chart, or ends with status 1 after a
  single printed line or a single traceback and nothing else.
\<close>

lemma main_all_or_nothing:
  assumes "main isfile parse g pr path = (out, st)"
    and "map_save pr ''track_map.html'' = None" and "plot_show pr = None"
  shows "(st = 0 \<and> (\<exists>s. out = print_summary s @ fst (visualize_track_on_map pr s)
                              @ fst (plot_elevation_profile pr s)))
       \<or> (st = 1 \<and> ((\<exists>m. out = [Print m]) \<or> (\<exists>e. out = [Traceback e])))"
  using assms
  by (auto simp: main_def run_analysis_def load_gpx_file_def visualize_track_on_map_def
      plot_elevation_profile_def
      split: if_splits sum.splits error.splits prod.splits outcome.splits)

text \<open>
  When the map document cannot be written, the run has printed the summary before it
  dies: the four lines are on the console, there is no map and no chart, and the status
  is 1.
\<close>

lemma map_save_failure_after_summary:
  "main (\<lambda>p. True) (\<lambda>p. Inr [[track_points hill_track]]) grid_distance read_only_presenter
     ''ride.gpx''
   = ([Print (Total_distance (2/100)), Print (Max_elevation (Fin 150)),
       Print (Min_elevation (Fin 100)), Print (Elevation_gain 50), Traceback OSError], 1)"
proof -
  have ext: "extract_track_data ((init ''ride.gpx'')\<lparr>gpx := Some [[track_points hill_track]]\<rparr>)
      = Inr hill_track"
    by (simp add: extract_track_data_def Let_def track_points_def hill_track_def loaded_def
        init_def)
  have load: "load_gpx_file (\<lambda>p. Inr [[track_points hill_track]]) (init ''ride.gpx'')
      = ([], Returns ((init ''ride.gpx'')\<lparr>gpx := Some [[track_points hill_track]]\<rparr>))"
    by (simp add: load_gpx_file_def)
  show ?thesis
    by (simp add: main_def run_analysis_def load ext hill_track_run visualize_track_on_map_def
        read_only_presenter_def print_summary_def hill_track_done_def)
qed

text \<open>
  Claim C5. The specification asks that a file without points, like the other load
  failures, ends the run with a printed user-facing message. A file whose only track has
  one empty segment passes \<^verbatim>\<open>load_gpx_file\<close>; the \<^verbatim>\<open>ValueError\<close> of \<^verbatim>\<open>extract_track_data\<close>
  is caught nowhere, nothing is printed by the program, and the process ends with the
  interpreter's traceback and status 1.
\<close>

theorem empty_segment_uncaught:
  "main (\<lambda>p. True) (\<lambda>p. Inr [[[]]]) grid_distance working_presenter ''ride.gpx''
     = ([Traceback no_points], 1)"
  by (simp add: main_def run_analysis_def load_gpx_file_def extract_track_data_def init_def)

end
